theory Spec2Isabelle
  imports Complex_Main "HOL-Library.Sublist"
begin

section \<open>JavaScript values and arrays\<close>

text \<open>
  A JavaScript slot that holds \<^verbatim>\<open>undefined\<close> (also: an array hole, a property never
  assigned), \<^verbatim>\<open>null\<close>, or a value.
\<close>

datatype 'a js = Undefined | Null | Val 'a

text \<open>
  Truthiness of an entry of \<^verbatim>\<open>_buttonPresses\<close>: the entries are \<^verbatim>\<open>Date.now()\<close> readings
  (integer milliseconds), \<^verbatim>\<open>null\<close> or holes. A number is truthy unless it is zero.
\<close>

fun truthy_time :: "int js \<Rightarrow> bool" where
  "truthy_time (Val t) = (t \<noteq> 0)"
| "truthy_time Null = False"
| "truthy_time Undefined = False"

text \<open>Reading \<^verbatim>\<open>xs[i]\<close>: out of range gives \<^verbatim>\<open>undefined\<close>.\<close>

definition js_get :: "'a js list \<Rightarrow> nat \<Rightarrow> 'a js" where
  "js_get xs i = (if i < length xs then xs ! i else Undefined)"

text \<open>Writing \<^verbatim>\<open>xs[i] = v\<close>: past the end the array grows, the gap filled with holes.\<close>

definition js_set :: "'a js list \<Rightarrow> nat \<Rightarrow> 'a js \<Rightarrow> 'a js list" where
  "js_set xs i v =
     (if i < length xs then xs[i := v]
      else xs @ replicate (i - length xs) Undefined @ [v])"

text \<open>Writing \<^verbatim>\<open>xs.length = n\<close>: truncates, or grows with holes.\<close>

definition js_set_length :: "'a js list \<Rightarrow> nat \<Rightarrow> 'a js list" where
  "js_set_length xs n =
     (if n \<le> length xs then take n xs
      else xs @ replicate (n - length xs) Undefined)"

section \<open>The gamepad and the actions sent to the world\<close>

record GamepadButton =
  pressed :: bool

text \<open>
  A JavaScript number: a double. The finite doubles are real numbers; the sign of zero is
  not kept.
\<close>

datatype double = NaN | PosInf | NegInf | Fin real

text \<open>A number is falsy when it is zero or \<^verbatim>\<open>NaN\<close>.\<close>

fun falsy_number :: "double \<Rightarrow> bool" where
  "falsy_number NaN = True"
| "falsy_number (Fin x) = (x = 0)"
| "falsy_number PosInf = False"
| "falsy_number NegInf = False"

text \<open>The comparison \<^verbatim>\<open>x > y\<close> of two numbers: exact, and false when one is \<^verbatim>\<open>NaN\<close>.\<close>

fun greater :: "double \<Rightarrow> double \<Rightarrow> bool" where
  "greater NaN y = False"
| "greater x NaN = False"
| "greater PosInf PosInf = False"
| "greater PosInf y = True"
| "greater NegInf y = False"
| "greater (Fin x) PosInf = False"
| "greater (Fin x) NegInf = True"
| "greater (Fin x) (Fin y) = (x > y)"

text \<open>
  The literal \<^verbatim>\<open>0.1\<close> is the double nearest to one tenth, \<open>3602879701896397 / 2 ^ 55\<close>.
\<close>

definition double_0_1 :: double where
  "double_0_1 = Fin (3602879701896397 / 36028797018963968)"

text \<open>
  The operations on doubles that round, as the JavaScript engine computes them: the
  product \<^verbatim>\<open>x * y\<close> and \<^verbatim>\<open>Math.hypot(x, y)\<close>. They are parameters of the functions below,
  which hold for whatever the engine computes.
\<close>

record js_arith =
  times :: "double \<Rightarrow> double \<Rightarrow> double"
  Math_hypot :: "double \<Rightarrow> double \<Rightarrow> double"

text \<open>
  \<open>hapticActuators\<close> is \<open>None\<close> where the browser's gamepad has no such property; the
  actuators are named by numbers.
\<close>

record Gamepad =
  buttons :: "GamepadButton list"
  axes :: "double list"
  mapping :: string
  hapticActuators :: "nat list option"

text \<open>
  The payload of \<^verbatim>\<open>notifyWorld('rayPointerAction', {...})\<close>. A property the object literal
  does not have is \<open>None\<close>. The ray \<^verbatim>\<open>this._ray\<close> is described by the pose it was last
  computed from (\<open>None\<close>: the fresh \<^verbatim>\<open>new Ray()\<close> of the constructor); the payload holds
  its value at the time of the call.
\<close>

record 'p action =
  ray :: "'p option"
  atype :: string
  button :: "nat option"
  deltaX :: "double option"
  deltaY :: "double option"
  deltaMode :: "nat option"

definition button_action :: "'p option \<Rightarrow> string \<Rightarrow> nat \<Rightarrow> 'p action" where
  "button_action r ty i =
     \<lparr>ray = r, atype = ty, button = Some i, deltaX = None, deltaY = None, deltaMode = None\<rparr>"

definition wheel_action :: "'p option \<Rightarrow> double \<Rightarrow> double \<Rightarrow> 'p action" where
  "wheel_action r dx dy =
     \<lparr>ray = r, atype = ''wheel'', button = None, deltaX = Some dx, deltaY = Some dy,
      deltaMode = Some 0\<rparr>"

definition CLICK_MAX_DUR :: int where
  "CLICK_MAX_DUR = 300"

section \<open>Button and axis tracking\<close>

text \<open>
  The body of the loop over the buttons in \<^verbatim>\<open>_trackGamepadState\<close>, at index \<open>i\<close>:
  \<open>pointing\<close> is \<^verbatim>\<open>this.isPointing\<close>, \<open>r\<close> the ray, \<open>bs\<close> the gamepad's buttons, \<open>pt\<close> the
  array \<^verbatim>\<open>pressedTimes\<close>. It returns the array and the actions sent. The last statement
  of the body sets the array's length.
\<close>

definition button_step ::
  "bool \<Rightarrow> 'p option \<Rightarrow> GamepadButton list \<Rightarrow> int \<Rightarrow> nat \<Rightarrow> int js list
     \<Rightarrow> int js list \<times> 'p action list" where
  "button_step pointing r bs now i pt =
     (let b = pressed (bs ! i); old = js_get pt i in
      if b \<noteq> truthy_time old then
        (let acts =
           (if pointing then
              button_action r (if b then ''mousedown'' else ''mouseup'') i #
              (if (case old of Val t \<Rightarrow> t \<noteq> 0 \<and> \<not> b \<and> now - t \<le> CLICK_MAX_DUR | _ \<Rightarrow> False)
               then [button_action r ''click'' i] else [])
            else []);
           pt1 = js_set pt i (if b then Val now else Null)
         in (js_set_length pt1 (length bs), acts))
      else (js_set_length pt (length bs), []))"

function button_loop ::
  "bool \<Rightarrow> 'p option \<Rightarrow> GamepadButton list \<Rightarrow> int \<Rightarrow> nat \<Rightarrow> int js list \<Rightarrow> 'p action list
     \<Rightarrow> int js list \<times> 'p action list" where
  "button_loop pointing r bs now i pt out =
     (if i < length bs then
        (case button_step pointing r bs now i pt of
           (pt', acts) \<Rightarrow> button_loop pointing r bs now (Suc i) pt' (out @ acts))
      else (pt, out))"
  by pat_completeness auto
termination
  by (relation "measure (\<lambda>(pointing, r, bs, now, i, pt, out). length bs - i)") auto

text \<open>
  \<^verbatim>\<open>axes[i] || 0\<close>: an index out of range reads \<^verbatim>\<open>undefined\<close>, and a falsy value gives 0.
\<close>

definition axis_or_zero :: "double list \<Rightarrow> nat \<Rightarrow> double" where
  "axis_or_zero ax i = (if i < length ax \<and> \<not> falsy_number (ax ! i) then ax ! i else Fin 0)"

text \<open>The loop over the pairs of axes, with the arithmetic \<open>A\<close> of the engine.\<close>

function wheel_loop ::
  "js_arith \<Rightarrow> bool \<Rightarrow> 'p option \<Rightarrow> double list \<Rightarrow> nat \<Rightarrow> 'p action list
     \<Rightarrow> 'p action list" where
  "wheel_loop A pointing r ax i out =
     (if i < length ax then
        (let dx = times A (axis_or_zero ax i) (Fin 10);
             dy = times A (axis_or_zero ax (i + 1)) (Fin 10) in
         wheel_loop A pointing r ax (i + 2)
           (if greater (Math_hypot A dx dy) double_0_1 then
              (if pointing then out @ [wheel_action r dx dy] else out)
            else out))
      else out)"
  by pat_completeness auto
termination
  by (relation "measure (\<lambda>(A, pointing, r, ax, i, out). length ax - i)") auto

section \<open>The facade\<close>

type_synonym session = nat

record XRInputSource =
  targetRayMode :: string
  targetRaySpace :: nat
  gripSpace :: "nat option"
  gamepad :: "Gamepad option"

text \<open>
  One of the three entries of \<^verbatim>\<open>children\<close>: the properties \<^verbatim>\<open>afterUpdate\<close> assigns to
  a configuration object.
\<close>

record ('p, 'x) child_cfg =
  key :: string
  cfg_targetRayPose :: "'p option"
  cfg_gripPose :: "'p option"
  cfg_rayIntersection :: "'x option"
  cfg_xrInputSource :: XRInputSource

text \<open>
  The fields of \<^verbatim>\<open>XrInputSourceFacade\<close>. \<open>'p\<close> is the type of poses, \<open>'x\<close> of intersection
  results. \<open>facade_id\<close> stands for the identity of the object (\<^verbatim>\<open>this\<close>); \<open>lastXrSession\<close>
  is \<^verbatim>\<open>_lastXrSession\<close>, \<open>facade_ray\<close> is \<^verbatim>\<open>_ray\<close>, \<open>buttonPresses\<close> is \<^verbatim>\<open>_buttonPresses\<close>
  (empty while the property is not yet set); \<open>cursor\<close>, \<open>targetRay\<close> and \<open>grip\<close> say whether
  the configuration object of that name is truthy.
\<close>

record ('p, 'x) facade =
  facade_id :: nat
  xrInputSource :: "XRInputSource option"
  xrSession :: "session js"
  lastXrSession :: "session js"
  targetRayPose :: "'p option"
  gripPose :: "'p option"
  rayIntersection :: "'x option"
  cursor :: bool
  targetRay :: bool
  grip :: bool
  isPointing :: bool
  children :: "('p, 'x) child_cfg option list"
  facade_ray :: "'p option"
  buttonPresses :: "int js list"

definition constructor :: "nat \<Rightarrow> ('p, 'x) facade" where
  "constructor me =
     \<lparr>facade_id = me, xrInputSource = None, xrSession = Null, lastXrSession = Undefined,
      targetRayPose = None, gripPose = None, rayIntersection = None,
      cursor = True, targetRay = True, grip = True, isPointing = True,
      children = [None, None, None], facade_ray = None, buttonPresses = []\<rparr>"

text \<open>
  \<^verbatim>\<open>_trackGamepadState(gamepad)\<close>, with the arithmetic \<open>A\<close> and the reading \<open>now\<close> of
  \<^verbatim>\<open>Date.now()\<close>: the loop over the buttons, then the loop over the pairs of axes. It
  reads \<open>isPointing\<close> and the ray and writes \<open>buttonPresses\<close>.
\<close>

definition trackGamepadState ::
  "js_arith \<Rightarrow> ('p, 'x) facade \<Rightarrow> Gamepad \<Rightarrow> int \<Rightarrow> ('p, 'x) facade \<times> 'p action list" where
  "trackGamepadState A s gp now =
     (case button_loop (isPointing s) (facade_ray s) (buttons gp) now 0 (buttonPresses s) [] of
        (pt, out) \<Rightarrow>
          (s\<lparr>buttonPresses := pt\<rparr>,
           wheel_loop A (isPointing s) (facade_ray s) (axes gp) 0 out))"

section \<open>Session events, update pass, frames and scene events\<close>

datatype error = TypeError

record XrTargetEvent =
  ev_name :: string
  bubbles :: bool
  ev_eventSource :: nat

text \<open>
  What a method does to the world outside the facade, in the order of the calls:
  \<^verbatim>\<open>notifyWorld\<close> with a ray or an action, \<^verbatim>\<open>addEventListener\<close> and
  \<^verbatim>\<open>removeEventListener\<close> of \<^verbatim>\<open>_onSessionEvent\<close> on a session, \<^verbatim>\<open>pulse\<close> on a haptic
  actuator, \<^verbatim>\<open>dispatchEvent\<close> on a target object.
\<close>

datatype 'p effect =
    RayPointerMotion "'p option"
  | RayPointerAction "'p action"
  | AddEventListener session string
  | RemoveEventListener session string
  | Pulse nat real real
  | DispatchEvent nat XrTargetEvent

definition SCENE_EVENTS :: "string list" where
  "SCENE_EVENTS = [''mousemove'', ''mouseover'', ''mouseout'', ''mousedown'', ''mouseup'', ''click'']"

definition XRSESSION_EVENTS :: "string list" where
  "XRSESSION_EVENTS =
     [''selectstart'', ''select'', ''selectend'', ''squeezestart'', ''squeeze'', ''squeezeend'']"

text \<open>\<^verbatim>\<open>toggleEvents(target, on, eventTypes, handler)\<close> for a session and \<^verbatim>\<open>_onSessionEvent\<close>.\<close>

definition toggleEvents :: "session js \<Rightarrow> bool \<Rightarrow> string list \<Rightarrow> 'p effect list" where
  "toggleEvents target on eventTypes =
     (case target of
        Val t \<Rightarrow> map (\<lambda>ty. if on then AddEventListener t ty else RemoveEventListener t ty) eventTypes
      | _ \<Rightarrow> [])"

text \<open>
  \<^verbatim>\<open>_isXrStandardGamepad()\<close>, for the input source \<^verbatim>\<open>this.xrInputSource\<close>; the callers below
  raise the \<^verbatim>\<open>TypeError\<close> of reading a property of \<^verbatim>\<open>null\<close> where there is none.
\<close>

definition isXrStandardGamepad :: "XRInputSource \<Rightarrow> bool" where
  "isXrStandardGamepad src =
     (case gamepad src of None \<Rightarrow> False | Some g \<Rightarrow> mapping g = ''xr-standard'')"

definition child ::
  "('p, 'x) facade \<Rightarrow> XRInputSource \<Rightarrow> string \<Rightarrow> ('p, 'x) child_cfg" where
  "child s src k =
     \<lparr>key = k, cfg_targetRayPose = targetRayPose s, cfg_gripPose = gripPose s,
      cfg_rayIntersection = rayIntersection s, cfg_xrInputSource = src\<rparr>"

text \<open>
  \<^verbatim>\<open>afterUpdate()\<close>. The call of the superclass's method at its end belongs to the scene
  graph and is not modelled.
\<close>

definition afterUpdate :: "('p, 'x) facade \<Rightarrow> error + (('p, 'x) facade \<times> 'p effect list)" where
  "afterUpdate s =
     (case xrInputSource s of
        None \<Rightarrow> Inl TypeError
      | Some src \<Rightarrow>
          (let (s1, effs) =
                 (if xrSession s \<noteq> lastXrSession s then
                    (s\<lparr>lastXrSession := xrSession s\<rparr>,
                     toggleEvents (lastXrSession s) False XRSESSION_EVENTS @
                     (if \<not> isXrStandardGamepad src
                      then toggleEvents (xrSession s) True XRSESSION_EVENTS else []))
                  else (s, []));
               cursorCfg =
                 (if targetRayMode src \<noteq> ''screen'' \<and> isPointing s \<and> cursor s
                  then Some (child s src ''cursor'') else None);
               targetRayCfg =
                 (if targetRayMode src = ''tracked-pointer'' \<and> isPointing s \<and> targetRay s
                  then Some (child s src ''targetRay'') else None);
               gripCfg =
                 (if targetRayMode src = ''tracked-pointer'' \<and> gripPose s \<noteq> None \<and> grip s
                  then Some (child s src ''grip'') else None)
           in Inr (s1\<lparr>children := [cursorCfg, targetRayCfg, gripCfg]\<rparr>, effs)))"

text \<open>
  \<^verbatim>\<open>_onXrFrame(time, xrFrame)\<close>. \<open>getPose\<close> is \<^verbatim>\<open>xrFrame.getPose\<close>, \<open>refSpace\<close> the camera
  facade's \<^verbatim>\<open>offsetReferenceSpace\<close>, \<open>now\<close> the reading of \<^verbatim>\<open>Date.now()\<close>.
\<close>

definition onXrFrame ::
  "js_arith \<Rightarrow> ('p, 'x) facade \<Rightarrow> (nat \<Rightarrow> nat \<Rightarrow> 'p option) \<Rightarrow> nat option \<Rightarrow> int
     \<Rightarrow> error + (('p, 'x) facade \<times> 'p effect list)" where
  "onXrFrame A s getPose refSpace now =
     (case xrInputSource s of
        None \<Rightarrow> Inl TypeError
      | Some src \<Rightarrow>
          (let (s1, effs1) =
                 (case refSpace of
                    None \<Rightarrow> (s, [])
                  | Some rs \<Rightarrow>
                      (let pose = getPose (targetRaySpace src) rs;
                           (s', moved) =
                             (case pose of
                                Some p \<Rightarrow>
                                  if isPointing s
                                  then (s\<lparr>facade_ray := Some p\<rparr>, [RayPointerMotion (Some p)])
                                  else (s, [])
                              | None \<Rightarrow> (s, []))
                       in (s'\<lparr>targetRayPose := pose,
                               gripPose := (case gripSpace src of
                                              Some g \<Rightarrow> getPose g rs
                                            | None \<Rightarrow> None)\<rparr>,
                           moved)));
               (s2, effs2) =
                 (case gamepad src of
                    Some g \<Rightarrow>
                      if isXrStandardGamepad src
                      then (case trackGamepadState A s1 g now of
                              (s', acts) \<Rightarrow> (s', map RayPointerAction acts))
                      else (s1, [])
                  | None \<Rightarrow> (s1, []))
           in case afterUpdate s2 of
                Inl e \<Rightarrow> Inl e
              | Inr (s3, effs3) \<Rightarrow> Inr (s3, effs1 @ effs2 @ effs3)))"

text \<open>
  The constants \<^verbatim>\<open>BUTTON_TRIGGER\<close> and \<^verbatim>\<open>BUTTON_SQUEEZE\<close> come from the module
  \<^verbatim>\<open>xrStandardGamepadMapping\<close>; their values are parameters of the functions that use them.
\<close>

record xrStandardGamepadMapping =
  BUTTON_TRIGGER :: nat
  BUTTON_SQUEEZE :: nat

text \<open>
  \<^verbatim>\<open>_onSessionEvent(e)\<close>, for the event's type \<open>ty\<close>. The regular expressions \<^verbatim>\<open>/start$/\<close>,
  \<^verbatim>\<open>/end$/\<close> and \<^verbatim>\<open>/^squeeze/\<close> test a suffix or a prefix of the name.
\<close>

definition onSessionEvent ::
  "xrStandardGamepadMapping \<Rightarrow> ('p, 'x) facade \<Rightarrow> string \<Rightarrow> 'p effect list" where
  "onSessionEvent m s ty =
     [RayPointerAction
        \<lparr>ray = facade_ray s,
         atype = (if suffix ''start'' ty then ''mousedown''
                  else if suffix ''end'' ty then ''mouseup'' else ''click''),
         button = Some (if prefix ''squeeze'' ty then BUTTON_SQUEEZE m else BUTTON_TRIGGER m),
         deltaX = None, deltaY = None, deltaMode = None\<rparr>]"

text \<open>
  The table \<^verbatim>\<open>RAY_TARGET_EVENTS\<close>: an object literal with two computed keys, the second
  written after the first.
\<close>

definition RAY_TARGET_EVENTS ::
  "xrStandardGamepadMapping \<Rightarrow> nat \<rightharpoonup> (string \<rightharpoonup> string)" where
  "RAY_TARGET_EVENTS m =
     [BUTTON_TRIGGER m \<mapsto>
        [''mousedown'' \<mapsto> ''xrselectstart'', ''mouseup'' \<mapsto> ''xrselectend'',
         ''click'' \<mapsto> ''xrselect''],
      BUTTON_SQUEEZE m \<mapsto>
        [''mousedown'' \<mapsto> ''xrsqueezestart'', ''mouseup'' \<mapsto> ''xrsqueezeend'',
         ''click'' \<mapsto> ''xrsqueeze'']]"

text \<open>
  A scene-level event as \<^verbatim>\<open>_onSceneRayEvent\<close> reads it: \<open>eventSource\<close> is
  \<^verbatim>\<open>e.nativeEvent.eventSource\<close>, objects are named by numbers, \<open>ev_button\<close> is \<open>None\<close> where
  the event has no button. The listener is registered for the types of \<open>SCENE_EVENTS\<close>.
\<close>

record 'x scene_event =
  ev_type :: string
  target :: nat
  currentTarget :: nat
  eventSource :: nat
  intersection :: "'x option"
  ev_button :: "nat option"

text \<open>The entries of \<^verbatim>\<open>HAPTICS\<close>, as (value, duration).\<close>

definition HAPTICS :: "string \<rightharpoonup> real \<times> real" where
  "HAPTICS = [''mouseover'' \<mapsto> (3 / 10, 10), ''click'' \<mapsto> (1, 20)]"

definition onSceneRayEvent ::
  "xrStandardGamepadMapping \<Rightarrow> ('p, 'x) facade \<Rightarrow> 'x scene_event
     \<Rightarrow> error + (('p, 'x) facade \<times> 'p effect list)" where
  "onSceneRayEvent m s e =
     (if eventSource e = facade_id s then
        (case afterUpdate (s\<lparr>rayIntersection := intersection e\<rparr>) of
           Inl err \<Rightarrow> Inl err
         | Inr (s1, effs1) \<Rightarrow>
             (let isScene = (target e = currentTarget e);
                  hapticPulse =
                    (if ev_type e = ''click'' then HAPTICS ''click''
                     else if ev_type e = ''mouseover'' \<and> \<not> isScene then HAPTICS ''mouseover''
                     else None);
                  effs2 =
                    (case hapticPulse of
                       None \<Rightarrow> []
                     | Some (v, d) \<Rightarrow>
                         (case xrInputSource s1 of
                            None \<Rightarrow> []
                          | Some src \<Rightarrow>
                              (case gamepad src of
                                 None \<Rightarrow> []
                               | Some g \<Rightarrow>
                                   (case hapticActuators g of
                                      Some (a # _) \<Rightarrow>
                                        [Pulse a (if v = 0 then 1 else v) (if d = 0 then 100 else d)]
                                    | _ \<Rightarrow> []))));
                  xrTargetEvent =
                    (case ev_button e of
                       None \<Rightarrow> None
                     | Some b \<Rightarrow>
                         (case RAY_TARGET_EVENTS m b of
                            None \<Rightarrow> None
                          | Some tab \<Rightarrow> tab (ev_type e)));
                  effs3 =
                    (case xrTargetEvent of
                       None \<Rightarrow> []
                     | Some name \<Rightarrow>
                         [DispatchEvent (target e)
                            \<lparr>ev_name = name, bubbles = True, ev_eventSource = facade_id s\<rparr>])
              in Inr (s1, effs1 @ effs2 @ effs3)))
      else Inr (s, []))"

section \<open>Runs of polls and frames, and what the effects contain\<close>


text \<open>A run of frames: it stops at the first error.\<close>

fun frames ::
  "js_arith \<Rightarrow> ('p, 'x) facade \<Rightarrow> ((nat \<Rightarrow> nat \<Rightarrow> 'p option) \<times> nat option \<times> int) list
     \<Rightarrow> error + ('p, 'x) facade" where
  "frames A s [] = Inr s"
| "frames A s ((getPose, refSpace, now) # fs) =
     (case onXrFrame A s getPose refSpace now of
        Inl e \<Rightarrow> Inl e
      | Inr (s', effs) \<Rightarrow> frames A s' fs)"

text \<open>The listeners an effect adds, and the events it dispatches.\<close>

fun added :: "'p effect \<Rightarrow> (session \<times> string) list" where
  "added (AddEventListener t ty) = [(t, ty)]"
| "added _ = []"

fun dispatched :: "'p effect \<Rightarrow> (nat \<times> XrTargetEvent) list" where
  "dispatched (DispatchEvent t ev) = [(t, ev)]"
| "dispatched _ = []"

text \<open>
  The listeners that are registered after a sequence of effects, oldest first: adding a
  listener that is registered changes nothing, removing one takes it away.
\<close>

fun listen :: "(session \<times> string) list \<Rightarrow> 'p effect \<Rightarrow> (session \<times> string) list" where
  "listen ls (AddEventListener t ty) = (if (t, ty) \<in> set ls then ls else ls @ [(t, ty)])"
| "listen ls (RemoveEventListener t ty) = removeAll (t, ty) ls"
| "listen ls _ = ls"

definition listening :: "'p effect list \<Rightarrow> (session \<times> string) list" where
  "listening effs = foldl listen [] effs"

text \<open>
  What one pass of the loop over the buttons leaves in the slot of its button, and what
  it sends, as functions of the button's state \<open>b\<close> and of the slot's old content.
\<close>

definition new_slot :: "bool \<Rightarrow> int \<Rightarrow> int js \<Rightarrow> int js" where
  "new_slot b now old = (if b \<noteq> truthy_time old then (if b then Val now else Null) else old)"

definition step_acts :: "bool \<Rightarrow> 'p option \<Rightarrow> int \<Rightarrow> nat \<Rightarrow> bool \<Rightarrow> int js \<Rightarrow> 'p action list" where
  "step_acts pointing r now i b old =
     (if pointing \<and> b \<noteq> truthy_time old then
        button_action r (if b then ''mousedown'' else ''mouseup'') i #
        (if (case old of Val t \<Rightarrow> t \<noteq> 0 \<and> \<not> b \<and> now - t \<le> CLICK_MAX_DUR | _ \<Rightarrow> False)
         then [button_action r ''click'' i] else [])
      else [])"

text \<open>What the loop over the axes sends for the pair that starts at index \<open>i\<close>.\<close>

definition wheel_pair ::
  "js_arith \<Rightarrow> bool \<Rightarrow> 'p option \<Rightarrow> double list \<Rightarrow> nat \<Rightarrow> 'p action list" where
  "wheel_pair A pointing r ax i =
     (let dx = times A (axis_or_zero ax i) (Fin 10);
          dy = times A (axis_or_zero ax (i + 1)) (Fin 10) in
      if pointing \<and> greater (Math_hypot A dx dy) double_0_1 then [wheel_action r dx dy] else [])"

definition button_part :: "('p, 'x) facade \<Rightarrow> Gamepad \<Rightarrow> int \<Rightarrow> 'p action list" where
  "button_part s gp now =
     concat (map (\<lambda>j. step_acts (isPointing s) (facade_ray s) now j (pressed (buttons gp ! j))
                        (js_get (buttonPresses s) j)) [0..<length (buttons gp)])"

definition wheel_part :: "js_arith \<Rightarrow> ('p, 'x) facade \<Rightarrow> Gamepad \<Rightarrow> 'p action list" where
  "wheel_part A s gp =
     concat (map (\<lambda>k. wheel_pair A (isPointing s) (facade_ray s) (axes gp) (2 * k))
               [0..<(length (axes gp) + 1) div 2])"

text \<open>
  Example values. An arithmetic without rounding: on the numbers of the examples (0, 1
  and 10) the products and magnitudes are doubles, so it computes what the engine
  computes. A standard gamepad, and an input source that holds a gamepad.
\<close>

fun exact_times :: "double \<Rightarrow> double \<Rightarrow> double" where
  "exact_times (Fin x) (Fin y) = Fin (x * y)"
| "exact_times x y = NaN"

fun exact_hypot :: "double \<Rightarrow> double \<Rightarrow> double" where
  "exact_hypot (Fin x) (Fin y) = Fin (sqrt (x * x + y * y))"
| "exact_hypot x y = NaN"

definition exact_arith :: js_arith where
  "exact_arith = \<lparr>times = exact_times, Math_hypot = exact_hypot\<rparr>"

definition pad :: "bool list \<Rightarrow> double list \<Rightarrow> Gamepad" where
  "pad ps ax =
     \<lparr>buttons = map (\<lambda>b. \<lparr>pressed = b\<rparr>) ps, axes = ax, mapping = ''xr-standard'',
      hapticActuators = None\<rparr>"

definition source :: "Gamepad option \<Rightarrow> XRInputSource" where
  "source g =
     \<lparr>targetRayMode = ''tracked-pointer'', targetRaySpace = 1, gripSpace = Some 2, gamepad = g\<rparr>"

definition device :: "Gamepad option \<Rightarrow> (nat, nat) facade" where
  "device g = (constructor 7)\<lparr>xrInputSource := Some (source g), xrSession := Val 5\<rparr>"

definition buttonIds :: xrStandardGamepadMapping where
  "buttonIds = \<lparr>BUTTON_TRIGGER = 0, BUTTON_SQUEEZE = 1\<rparr>"

declare button_loop.simps [simp del]
declare wheel_loop.simps [simp del]

section \<open>The arrays and the two loops\<close>

lemma length_js_set_length: "length (js_set_length xs n) = n"
  by (simp add: js_set_length_def)

lemma js_get_js_set_length: "j < n \<Longrightarrow> js_get (js_set_length xs n) j = js_get xs j"
  by (simp add: js_set_length_def js_get_def nth_append)

lemma js_get_js_set: "js_get (js_set xs i v) j = (if j = i then v else js_get xs j)"
  by (auto simp: js_set_def js_get_def nth_append nth_Cons')

lemma button_step_length: "length (fst (button_step p r bs now i pt)) = length bs"
  by (simp add: button_step_def Let_def length_js_set_length)

lemma button_step_get:
  "j < length bs \<Longrightarrow>
   js_get (fst (button_step p r bs now i pt)) j =
     (if j = i then new_slot (pressed (bs ! i)) now (js_get pt i) else js_get pt j)"
  by (simp add: button_step_def Let_def js_get_js_set_length js_get_js_set new_slot_def)

lemma button_step_acts:
  "snd (button_step p r bs now i pt) = step_acts p r now i (pressed (bs ! i)) (js_get pt i)"
  by (simp add: button_step_def Let_def step_acts_def)

lemma button_loop_char:
  "button_loop p r bs now i pt out = (pt', out') \<Longrightarrow>
   out' = out @ concat (map (\<lambda>j. step_acts p r now j (pressed (bs ! j)) (js_get pt j)) [i..<length bs])
   \<and> (\<forall>j<length bs. js_get pt' j =
         (if i \<le> j then new_slot (pressed (bs ! j)) now (js_get pt j) else js_get pt j))
   \<and> (if i < length bs then length pt' = length bs else pt' = pt)"
proof (induction p r bs now i pt out rule: button_loop.induct)
  case (1 p r bs now i pt out)
  show ?case
  proof (cases "i < length bs")
    case False
    with "1.prems" show ?thesis by (simp add: button_loop.simps)
  next
    case True
    obtain pt1 acts where st: "button_step p r bs now i pt = (pt1, acts)"
      by (cases "button_step p r bs now i pt")
    from "1.prems" True st
    have rec: "button_loop p r bs now (Suc i) pt1 (out @ acts) = (pt', out')"
      by (simp add: button_loop.simps[of p r bs now i])
    note ih = "1.IH"[OF True st[symmetric] rec]
    have len1: "length pt1 = length bs"
      using button_step_length[of p r bs now i pt] st by simp
    have get1: "\<And>j. j < length bs \<Longrightarrow>
        js_get pt1 j = (if j = i then new_slot (pressed (bs ! i)) now (js_get pt i) else js_get pt j)"
      using button_step_get[of _ bs p r now i pt] st by simp
    have acts: "acts = step_acts p r now i (pressed (bs ! i)) (js_get pt i)"
      using button_step_acts[of p r bs now i pt] st by simp
    have same: "map (\<lambda>j. step_acts p r now j (pressed (bs ! j)) (js_get pt1 j)) [Suc i..<length bs]
        = map (\<lambda>j. step_acts p r now j (pressed (bs ! j)) (js_get pt j)) [Suc i..<length bs]"
      by (rule map_cong) (auto simp: get1)
    have out: "out' = out @ concat (map (\<lambda>j. step_acts p r now j (pressed (bs ! j)) (js_get pt j)) [i..<length bs])"
      using ih same acts True by (simp add: upt_conv_Cons)
    have gets: "\<forall>j<length bs. js_get pt' j =
         (if i \<le> j then new_slot (pressed (bs ! j)) now (js_get pt j) else js_get pt j)"
    proof (intro allI impI)
      fix j assume j: "j < length bs"
      from ih j have "js_get pt' j =
         (if Suc i \<le> j then new_slot (pressed (bs ! j)) now (js_get pt1 j) else js_get pt1 j)"
        by blast
      then show "js_get pt' j =
         (if i \<le> j then new_slot (pressed (bs ! j)) now (js_get pt j) else js_get pt j)"
        using get1[OF j] by (cases "j = i") auto
    qed
    have len: "length pt' = length bs"
      using ih len1 by (auto split: if_splits)
    show ?thesis using out gets len True by simp
  qed
qed


lemma pair_starts_Cons:
  "i < n \<Longrightarrow>
   map (\<lambda>k. i + 2 * k) [0..<(n - i + 1) div 2] =
     i # map (\<lambda>k. (i + 2) + 2 * k) [0..<(n - (i + 2) + 1) div 2]"
proof -
  assume "i < n"
  then have "(n - i + 1) div 2 = Suc ((n - (i + 2) + 1) div 2)"
    by arith
  then show ?thesis
    by (simp add: upt_rec[of 0] map_Suc_upt[symmetric] del: upt_Suc)
qed

lemma wheel_loop_char:
  "wheel_loop A p r ax i out =
     out @ concat (map (wheel_pair A p r ax) (map (\<lambda>k. i + 2 * k) [0..<(length ax - i + 1) div 2]))"
proof (induction A p r ax i out rule: wheel_loop.induct)
  case (1 A p r ax i out)
  show ?case
  proof (cases "i < length ax")
    case False
    then show ?thesis by (subst wheel_loop.simps) simp
  next
    case True
    define dx where "dx = times A (axis_or_zero ax i) (Fin 10)"
    define dy where "dy = times A (axis_or_zero ax (i + 1)) (Fin 10)"
    define out1 where "out1 =
      (if greater (Math_hypot A dx dy) double_0_1 then
         (if p then out @ [wheel_action r dx dy] else out)
       else out)"
    have ih: "wheel_loop A p r ax (i + 2) out1 =
       out1 @ concat (map (wheel_pair A p r ax)
                 (map (\<lambda>k. (i + 2) + 2 * k) [0..<(length ax - (i + 2) + 1) div 2]))"
      unfolding out1_def dx_def dy_def by (rule "1.IH"[OF True refl refl])
    have o1: "out1 = out @ wheel_pair A p r ax i"
      by (simp add: out1_def dx_def dy_def wheel_pair_def Let_def)
    have "wheel_loop A p r ax i out = wheel_loop A p r ax (i + 2) out1"
      by (subst wheel_loop.simps) (simp only: True if_True Let_def out1_def dx_def dy_def)
    also have "\<dots> = out @ concat (map (wheel_pair A p r ax)
                 (i # map (\<lambda>k. (i + 2) + 2 * k) [0..<(length ax - (i + 2) + 1) div 2]))"
      using ih by (simp add: o1)
    also have "\<dots> = out @ concat (map (wheel_pair A p r ax)
                 (map (\<lambda>k. i + 2 * k) [0..<(length ax - i + 1) div 2]))"
      by (simp only: pair_starts_Cons[OF True])
    finally show ?thesis .
  qed
qed

lemma filter_concat_index:
  "distinct js \<Longrightarrow> (\<forall>j\<in>set js. \<forall>a\<in>set (f j). button a = Some j) \<Longrightarrow>
   [a \<leftarrow> concat (map f js). button a = Some i] = (if i \<in> set js then f i else [])"
proof (induction js)
  case Nil
  then show ?case by simp
next
  case (Cons j js)
  have here: "[a \<leftarrow> f j. button a = Some i] = (if j = i then f j else [])"
    using Cons.prems(2) by (auto simp: filter_empty_conv filter_id_conv)
  have rest: "[a \<leftarrow> concat (map f js). button a = Some i] = (if i \<in> set js then f i else [])"
    using Cons by simp
  show ?case using here rest Cons.prems(1) by auto
qed

lemma step_acts_button: "a \<in> set (step_acts p r now j b old) \<Longrightarrow> button a = Some j"
  by (auto simp: step_acts_def button_action_def split: if_splits)

lemma step_acts_not_wheel: "a \<in> set (step_acts p r now j b old) \<Longrightarrow> atype a \<noteq> ''wheel''"
  by (auto simp: step_acts_def button_action_def split: if_splits)

lemma wheel_pair_button: "a \<in> set (wheel_pair A p r ax k) \<Longrightarrow> button a = None \<and> atype a = ''wheel''"
  by (auto simp: wheel_pair_def wheel_action_def Let_def split: if_splits)

lemma track_out: "snd (trackGamepadState A s gp now) = button_part s gp now @ wheel_part A s gp"
proof -
  obtain pt out where bl:
    "button_loop (isPointing s) (facade_ray s) (buttons gp) now 0 (buttonPresses s) [] = (pt, out)"
    by (cases "button_loop (isPointing s) (facade_ray s) (buttons gp) now 0 (buttonPresses s) []")
  from button_loop_char[OF bl] have "out = button_part s gp now"
    by (simp add: button_part_def)
  then show ?thesis
    using bl by (simp add: trackGamepadState_def wheel_loop_char[of _ _ _ _ 0] wheel_part_def comp_def)
qed

lemma track_get:
  "i < length (buttons gp) \<Longrightarrow>
   js_get (buttonPresses (fst (trackGamepadState A s gp now))) i =
     new_slot (pressed (buttons gp ! i)) now (js_get (buttonPresses s) i)"
proof -
  assume i: "i < length (buttons gp)"
  obtain pt out where bl:
    "button_loop (isPointing s) (facade_ray s) (buttons gp) now 0 (buttonPresses s) [] = (pt, out)"
    by (cases "button_loop (isPointing s) (facade_ray s) (buttons gp) now 0 (buttonPresses s) []")
  from button_loop_char[OF bl] i have "js_get pt i = new_slot (pressed (buttons gp ! i)) now (js_get (buttonPresses s) i)"
    by simp
  then show ?thesis using bl by (simp add: trackGamepadState_def)
qed

text \<open>After a poll the array is as long as the gamepad's buttons, unless there are none.\<close>

lemma track_length:
  "length (buttonPresses (fst (trackGamepadState A s gp now))) =
     (if buttons gp = [] then length (buttonPresses s) else length (buttons gp))"
proof -
  obtain pt out where bl:
    "button_loop (isPointing s) (facade_ray s) (buttons gp) now 0 (buttonPresses s) [] = (pt, out)"
    by (cases "button_loop (isPointing s) (facade_ray s) (buttons gp) now 0 (buttonPresses s) []")
  from button_loop_char[OF bl] have "if 0 < length (buttons gp) then length pt = length (buttons gp) else pt = buttonPresses s"
    by blast
  then show ?thesis using bl by (auto simp add: trackGamepadState_def split: if_splits)
qed

lemma track_button_acts:
  "[a \<leftarrow> snd (trackGamepadState A s gp now). button a = Some i] =
     (if i < length (buttons gp)
      then step_acts (isPointing s) (facade_ray s) now i (pressed (buttons gp ! i))
             (js_get (buttonPresses s) i)
      else [])"
proof -
  have w: "[a \<leftarrow> wheel_part A s gp. button a = Some i] = []"
    by (auto simp: filter_empty_conv wheel_part_def dest: wheel_pair_button)
  have b: "[a \<leftarrow> button_part s gp now. button a = Some i] =
     (if i \<in> set [0..<length (buttons gp)]
      then step_acts (isPointing s) (facade_ray s) now i (pressed (buttons gp ! i))
             (js_get (buttonPresses s) i)
      else [])"
    unfolding button_part_def
    by (rule filter_concat_index) (auto dest: step_acts_button)
  show ?thesis using w b by (simp add: track_out)
qed

lemma track_wheel_acts:
  "[a \<leftarrow> snd (trackGamepadState A s gp now). atype a = ''wheel''] = wheel_part A s gp"
proof -
  have w: "[a \<leftarrow> wheel_part A s gp. atype a = ''wheel''] = wheel_part A s gp"
    by (auto simp: filter_id_conv wheel_part_def dest: wheel_pair_button)
  have b: "[a \<leftarrow> button_part s gp now. atype a = ''wheel''] = []"
    by (auto simp: filter_empty_conv button_part_def dest: step_acts_not_wheel)
  show ?thesis using w b by (simp add: track_out)
qed





lemmas poll_eval = trackGamepadState_def button_loop.simps button_step_def js_get_def js_set_def
  js_set_length_def wheel_loop.simps constructor_def Let_def button_action_def wheel_action_def
  CLICK_MAX_DUR_def axis_or_zero_def pad_def exact_arith_def double_0_1_def

lemma stored_state_is_last_seen:
  assumes "i < length (buttons gp)" and "now \<noteq> 0"
  shows "truthy_time (js_get (buttonPresses (fst (trackGamepadState A s gp now))) i) =
         pressed (buttons gp ! i)"
  using track_get[OF assms(1), where A=A and s=s and now=now] assms(2)
  by (cases "js_get (buttonPresses s) i") (auto simp: new_slot_def)

section \<open>Press, release and click\<close>





text \<open>
  C2, as amended. Two polls follow each other, the first at a nonzero clock reading, and
  button \<open>i\<close> is in both. With pointing enabled (\<open>p\<close>) the second poll sends exactly one
  \<^verbatim>\<open>mousedown\<close> for button \<open>i\<close> when its state went from released to pressed, and none
  otherwise; exactly one \<^verbatim>\<open>mouseup\<close> when it went from pressed to released, and none
  otherwise; with pointing disabled it sends neither. When the state is the same in
  both polls, the second sends no action at all for button \<open>i\<close>.
\<close>

theorem one_action_per_transition:
  assumes "trackGamepadState A s0 gp1 t1 = (s1, out1)"
    and "t1 \<noteq> 0"
    and "trackGamepadState A (s1\<lparr>isPointing := p, facade_ray := r\<rparr>) gp2 t2 = (s2, out2)"
    and "i < length (buttons gp1)"
    and "i < length (buttons gp2)"
  shows "[a \<leftarrow> out2. button a = Some i \<and> atype a = ''mousedown''] =
           (if p \<and> \<not> pressed (buttons gp1 ! i) \<and> pressed (buttons gp2 ! i)
            then [button_action r ''mousedown'' i] else []) \<and>
         [a \<leftarrow> out2. button a = Some i \<and> atype a = ''mouseup''] =
           (if p \<and> pressed (buttons gp1 ! i) \<and> \<not> pressed (buttons gp2 ! i)
            then [button_action r ''mouseup'' i] else []) \<and>
         (pressed (buttons gp1 ! i) = pressed (buttons gp2 ! i) \<longrightarrow>
            [a \<leftarrow> out2. button a = Some i] = [])"
proof -
  let ?st = "s1\<lparr>isPointing := p, facade_ray := r\<rparr>"
  let ?old = "js_get (buttonPresses s1) i"
  have seen: "truthy_time ?old = pressed (buttons gp1 ! i)"
    using stored_state_is_last_seen[OF assms(4,2), where A=A and s=s0] assms(1) by simp
  have acts: "[a \<leftarrow> out2. button a = Some i] =
                step_acts p r t2 i (pressed (buttons gp2 ! i)) ?old"
    using track_button_acts[where A=A and s="?st" and gp=gp2 and now=t2 and i=i] assms(3,5) by simp
  have split: "\<And>ty. [a \<leftarrow> out2. button a = Some i \<and> atype a = ty] =
                 [a \<leftarrow> [a \<leftarrow> out2. button a = Some i]. atype a = ty]"
    by (simp add: conj_commute)
  have down: "[a \<leftarrow> out2. button a = Some i \<and> atype a = ''mousedown''] =
           (if p \<and> \<not> pressed (buttons gp1 ! i) \<and> pressed (buttons gp2 ! i)
            then [button_action r ''mousedown'' i] else [])"
    unfolding split acts using seen by (auto simp: step_acts_def button_action_def)
  have up: "[a \<leftarrow> out2. button a = Some i \<and> atype a = ''mouseup''] =
           (if p \<and> pressed (buttons gp1 ! i) \<and> \<not> pressed (buttons gp2 ! i)
            then [button_action r ''mouseup'' i] else [])"
    unfolding split acts using seen by (auto simp: step_acts_def button_action_def)
  have same: "pressed (buttons gp1 ! i) = pressed (buttons gp2 ! i) \<longrightarrow>
            [a \<leftarrow> out2. button a = Some i] = []"
    unfolding acts using seen by (simp add: step_acts_def)
  show ?thesis using down up same by blast
qed

theorem one_action_per_transition_witness:
  "[a \<leftarrow> snd (trackGamepadState exact_arith
            ((fst (trackGamepadState exact_arith (constructor 7 :: (nat, nat) facade)
                     (pad [False, True, True] []) 1000))
               \<lparr>isPointing := True, facade_ray := Some 4\<rparr>)
            (pad [True, False, True] []) 1016).
      button a = Some 0 \<and> atype a = ''mousedown''] = [button_action (Some 4) ''mousedown'' 0] \<and>
   [a \<leftarrow> snd (trackGamepadState exact_arith
            ((fst (trackGamepadState exact_arith (constructor 7 :: (nat, nat) facade)
                     (pad [False, True, True] []) 1000))
               \<lparr>isPointing := True, facade_ray := Some 4\<rparr>)
            (pad [True, False, True] []) 1016).
      button a = Some 1 \<and> atype a = ''mouseup''] = [button_action (Some 4) ''mouseup'' 1] \<and>
   [a \<leftarrow> snd (trackGamepadState exact_arith
            ((fst (trackGamepadState exact_arith (constructor 7 :: (nat, nat) facade)
                     (pad [False, True, True] []) 1000))
               \<lparr>isPointing := True, facade_ray := Some 4\<rparr>)
            (pad [True, False, True] []) 1016).
      button a = Some 2] = []"
proof -
  let ?s0 = "constructor 7 :: (nat, nat) facade"
  let ?g1 = "pad [False, True, True] []"
  let ?g2 = "pad [True, False, True] []"
  let ?s1 = "fst (trackGamepadState exact_arith ?s0 ?g1 1000)"
  let ?st = "?s1\<lparr>isPointing := True, facade_ray := Some 4\<rparr>"
  have a1: "trackGamepadState exact_arith ?s0 ?g1 1000 = (?s1, snd (trackGamepadState exact_arith ?s0 ?g1 1000))"
    by simp
  have a2: "(1000::int) \<noteq> 0" by simp
  have a3: "trackGamepadState exact_arith ?st ?g2 1016 =
              (fst (trackGamepadState exact_arith ?st ?g2 1016), snd (trackGamepadState exact_arith ?st ?g2 1016))"
    by simp
  have l1: "\<And>i. i < 3 \<Longrightarrow> i < length (buttons ?g1)" by (simp add: pad_def)
  have l2: "\<And>i. i < 3 \<Longrightarrow> i < length (buttons ?g2)" by (simp add: pad_def)
  show ?thesis
    using one_action_per_transition[OF a1 a2 a3 l1[of 0] l2[of 0]]
          one_action_per_transition[OF a1 a2 a3 l1[of 1] l2[of 1]]
          one_action_per_transition[OF a1 a2 a3 l1[of 2] l2[of 2]]
    by (simp add: pad_def)
qed

theorem no_mousedown_without_pointing_counterexample:
  "snd (trackGamepadState exact_arith
          ((fst (trackGamepadState exact_arith (constructor 7 :: (nat, nat) facade) (pad [False] []) 1000))
             \<lparr>isPointing := False, facade_ray := None\<rparr>)
          (pad [True] []) 1016) = []"
  by (simp add: poll_eval)



section \<open>The length of the tracked array\<close>

text \<open>
  C6. The length is set in the body of the loop over the buttons, so a poll of a gamepad
  with no buttons leaves the array as it was: after a poll with one button, the array
  has one entry, and a poll with no buttons leaves that entry in place.
\<close>

theorem empty_buttons_keep_length:
  "length (buttons (pad [] [])) = 0 \<and>
   buttonPresses
     (fst (trackGamepadState exact_arith
             (fst (trackGamepadState exact_arith (constructor 7 :: (nat, nat) facade) (pad [True] []) 1000))
             (pad [] []) 1016)) = [Val 1000]"
  by (simp add: poll_eval)


section \<open>Wheel actions\<close>

text \<open>
  C4, as amended. The numbers are the doubles the code computes, for whatever the engine's
  product and \<^verbatim>\<open>Math.hypot\<close> are. The wheel actions of a poll are, in the order of the pairs
  of axes (indices \<open>2k\<close> and \<open>2k + 1\<close>, an axis read as 0 when it is out of range or falsy),
  one action with \<open>deltaX\<close> and \<open>deltaY\<close> the products of the two axes with 10 and
  \<open>deltaMode\<close> 0 for every pair whose magnitude is greater than the double \<^verbatim>\<open>0.1\<close> while
  pointing is enabled, and none for a pair whose magnitude is not greater, nor for any
  pair while pointing is disabled.
\<close>

theorem wheel_per_axis_pair:
  "[a \<leftarrow> snd (trackGamepadState A s gp now). atype a = ''wheel''] =
     concat (map (\<lambda>k.
        let dx = times A (axis_or_zero (axes gp) (2 * k)) (Fin 10);
            dy = times A (axis_or_zero (axes gp) (2 * k + 1)) (Fin 10)
        in if isPointing s \<and> greater (Math_hypot A dx dy) double_0_1
           then [\<lparr>ray = facade_ray s, atype = ''wheel'', button = None,
                  deltaX = Some dx, deltaY = Some dy, deltaMode = Some 0\<rparr>]
           else [])
       [0..<(length (axes gp) + 1) div 2])"
  by (simp only: track_wheel_acts wheel_part_def wheel_pair_def wheel_action_def)

theorem wheel_per_axis_pair_witness:
  "[a \<leftarrow> snd (trackGamepadState exact_arith (constructor 7 :: (nat, nat) facade)
                 (pad [True] [Fin 1, Fin 0, NaN]) 1000).
      atype a = ''wheel''] =
     [\<lparr>ray = None, atype = ''wheel'', button = None,
       deltaX = Some (Fin 10), deltaY = Some (Fin 0), deltaMode = Some 0\<rparr>]"
proof -
  have big: "sqrt 100 = 10"
    by (rule real_sqrt_unique) simp_all
  show ?thesis
    using wheel_per_axis_pair[of exact_arith "constructor 7 :: (nat, nat) facade"
            "pad [True] [Fin 1, Fin 0, NaN]" 1000]
    by (simp add: pad_def constructor_def Let_def big axis_or_zero_def exact_arith_def
                  double_0_1_def upt_rec[of 0] upt_rec[of 1])
qed

theorem no_wheel_without_pointing_counterexample:
  "greater (Math_hypot exact_arith (times exact_arith (Fin 1) (Fin 10))
                                   (times exact_arith (Fin 0) (Fin 10))) double_0_1 \<and>
   snd (trackGamepadState exact_arith ((constructor 7 :: (nat, nat) facade)\<lparr>isPointing := False\<rparr>)
          (pad [] [Fin 1, Fin 0]) 1000) = []"
proof -
  have big: "sqrt 100 = 10"
    by (rule real_sqrt_unique) simp_all
  show ?thesis
    by (simp add: poll_eval big)
qed

section \<open>The button of an action\<close>

lemma track_out_cases:
  assumes "a \<in> set (snd (trackGamepadState A s gp now))"
  shows "(atype a = ''wheel'' \<and> button a = None) \<or>
         (atype a \<in> {''mousedown'', ''mouseup'', ''click''} \<and>
          (\<exists>i<length (buttons gp). button a = Some i))"
proof -
  from assms have "a \<in> set (button_part s gp now) \<or> a \<in> set (wheel_part A s gp)"
    by (simp add: track_out)
  then show ?thesis
  proof
    assume "a \<in> set (button_part s gp now)"
    then obtain j where j: "j < length (buttons gp)"
      and a: "a \<in> set (step_acts (isPointing s) (facade_ray s) now j (pressed (buttons gp ! j))
                          (js_get (buttonPresses s) j))"
      by (auto simp: button_part_def)
    from a have "atype a \<in> {''mousedown'', ''mouseup'', ''click''} \<and> button a = Some j"
      by (auto simp: step_acts_def button_action_def split: if_splits)
    with j show ?thesis by blast
  next
    assume "a \<in> set (wheel_part A s gp)"
    then show ?thesis by (auto simp: wheel_part_def dest: wheel_pair_button)
  qed
qed

text \<open>
  C8, as amended. An action sent for a session event has the button \<^verbatim>\<open>BUTTON_TRIGGER\<close> or
  \<^verbatim>\<open>BUTTON_SQUEEZE\<close>. The actions of a poll that are not wheel actions are, in the order
  of the gamepad's buttons, those of the buttons whose state changed while pointing is
  enabled: for the button at index \<open>i\<close> a \<^verbatim>\<open>mousedown\<close> or \<^verbatim>\<open>mouseup\<close>, and after a
  \<^verbatim>\<open>mouseup\<close> within 300 ms of the recorded press a \<^verbatim>\<open>click\<close>, each with the button \<open>i\<close>,
  the index of that button. So the button of such an action is an index below the
  number of buttons, and a wheel action has no button.
\<close>

theorem button_of_action:
  "(\<forall>act. RayPointerAction act \<in> set (onSessionEvent m s ty) \<longrightarrow>
      button act = Some (BUTTON_TRIGGER m) \<or> button act = Some (BUTTON_SQUEEZE m)) \<and>
   [a \<leftarrow> snd (trackGamepadState A s' gp now). atype a \<noteq> ''wheel''] =
     concat (map (\<lambda>i.
        let b = pressed (buttons gp ! i); old = js_get (buttonPresses s') i
        in if isPointing s' \<and> b \<noteq> truthy_time old then
             \<lparr>ray = facade_ray s', atype = (if b then ''mousedown'' else ''mouseup''),
              button = Some i, deltaX = None, deltaY = None, deltaMode = None\<rparr> #
             (if (case old of Val t \<Rightarrow> \<not> b \<and> now - t \<le> 300 | _ \<Rightarrow> False)
              then [\<lparr>ray = facade_ray s', atype = ''click'', button = Some i,
                     deltaX = None, deltaY = None, deltaMode = None\<rparr>]
              else [])
           else [])
       [0..<length (buttons gp)]) \<and>
   (\<forall>a \<in> set (snd (trackGamepadState A s' gp now)).
      (atype a = ''wheel'' \<and> button a = None) \<or>
      (atype a \<in> {''mousedown'', ''mouseup'', ''click''} \<and>
       (\<exists>i<length (buttons gp). button a = Some i)))"
proof -
  have ev: "\<forall>act. RayPointerAction act \<in> set (onSessionEvent m s ty) \<longrightarrow>
      button act = Some (BUTTON_TRIGGER m) \<or> button act = Some (BUTTON_SQUEEZE m)"
    by (simp add: onSessionEvent_def)
  have w: "[a \<leftarrow> wheel_part A s' gp. atype a \<noteq> ''wheel''] = []"
    by (auto simp: filter_empty_conv wheel_part_def dest: wheel_pair_button)
  have b: "[a \<leftarrow> button_part s' gp now. atype a \<noteq> ''wheel''] = button_part s' gp now"
    by (auto simp: filter_id_conv button_part_def dest: step_acts_not_wheel)
  have step: "step_acts (isPointing s') (facade_ray s') now i (pressed (buttons gp ! i))
                    (js_get (buttonPresses s') i) =
       (let b = pressed (buttons gp ! i); old = js_get (buttonPresses s') i
        in if isPointing s' \<and> b \<noteq> truthy_time old then
             \<lparr>ray = facade_ray s', atype = (if b then ''mousedown'' else ''mouseup''),
              button = Some i, deltaX = None, deltaY = None, deltaMode = None\<rparr> #
             (if (case old of Val t \<Rightarrow> \<not> b \<and> now - t \<le> 300 | _ \<Rightarrow> False)
              then [\<lparr>ray = facade_ray s', atype = ''click'', button = Some i,
                     deltaX = None, deltaY = None, deltaMode = None\<rparr>]
              else [])
           else [])" for i
    by (cases "js_get (buttonPresses s') i")
       (auto simp: step_acts_def button_action_def CLICK_MAX_DUR_def Let_def)
  have acts: "[a \<leftarrow> snd (trackGamepadState A s' gp now). atype a \<noteq> ''wheel''] =
     concat (map (\<lambda>i.
        let b = pressed (buttons gp ! i); old = js_get (buttonPresses s') i
        in if isPointing s' \<and> b \<noteq> truthy_time old then
             \<lparr>ray = facade_ray s', atype = (if b then ''mousedown'' else ''mouseup''),
              button = Some i, deltaX = None, deltaY = None, deltaMode = None\<rparr> #
             (if (case old of Val t \<Rightarrow> \<not> b \<and> now - t \<le> 300 | _ \<Rightarrow> False)
              then [\<lparr>ray = facade_ray s', atype = ''click'', button = Some i,
                     deltaX = None, deltaY = None, deltaMode = None\<rparr>]
              else [])
           else [])
       [0..<length (buttons gp)])"
    using w b by (simp add: track_out button_part_def step)
  show ?thesis using ev acts track_out_cases[of _ A s' gp now] by blast
qed

theorem button_of_action_witness:
  "map button (snd (trackGamepadState exact_arith (constructor 7 :: (nat, nat) facade)
                      (pad [True, False, True] [Fin 1]) 1000)) =
     [Some 0, Some 2, None] \<and>
   [a \<leftarrow> snd (trackGamepadState exact_arith (constructor 7 :: (nat, nat) facade)
                  (pad [True, False, True] [Fin 1]) 1000). atype a \<noteq> ''wheel''] =
     [button_action None ''mousedown'' 0, button_action None ''mousedown'' 2] \<and>
   onSessionEvent buttonIds (constructor 7 :: (nat, nat) facade) ''squeezeend'' =
     [RayPointerAction (button_action None ''mouseup'' 1)]"
proof -
  have big: "sqrt 100 = 10"
    by (rule real_sqrt_unique) simp_all
  show ?thesis
    using button_of_action[of buttonIds "constructor 7 :: (nat, nat) facade" "''squeezeend''"
            exact_arith "constructor 7 :: (nat, nat) facade" "pad [True, False, True] [Fin 1]" 1000]
    by (simp add: poll_eval big onSessionEvent_def buttonIds_def suffix_to_prefix)
qed

theorem third_button_counterexample:
  "\<not> (\<exists>trigger squeeze.
        \<forall>a \<in> set (snd (trackGamepadState exact_arith (constructor 7 :: (nat, nat) facade)
                          (pad [True, True, True] []) 1000)).
          button a = Some trigger \<or> button a = Some squeeze)"
proof -
  have out: "map button (snd (trackGamepadState exact_arith (constructor 7 :: (nat, nat) facade)
                      (pad [True, True, True] []) 1000)) = [Some 0, Some 1, Some 2]"
    by (simp add: poll_eval)
  have "\<And>trigger squeeze. \<not> (\<forall>b \<in> set [Some 0, Some 1, Some (2::nat)].
           b = Some trigger \<or> b = Some squeeze)"
    by auto
  then have "\<And>trigger squeeze. \<not> (\<forall>a \<in> set (snd (trackGamepadState exact_arith (constructor 7 :: (nat, nat) facade)
                          (pad [True, True, True] []) 1000)).
          button a = Some trigger \<or> button a = Some squeeze)"
    unfolding out[symmetric] by simp
  then show ?thesis by blast
qed

section \<open>The update pass, frames and scene events\<close>

lemma concat_map_empty: "(\<And>x. x \<in> set xs \<Longrightarrow> f x = []) \<Longrightarrow> concat (map f xs) = []"
  by (induction xs) auto

lemma added_actions: "concat (map added (map RayPointerAction acts)) = []"
  by (rule concat_map_empty) auto

lemma added_toggle_off: "concat (map added (toggleEvents t False tys)) = []"
  by (rule concat_map_empty) (auto simp: toggleEvents_def split: js.splits)

lemma added_toggle_on:
  "concat (map added (toggleEvents t True tys)) =
     (case t of Val x \<Rightarrow> map (Pair x) tys | _ \<Rightarrow> [])"
  by (induction tys) (auto simp: toggleEvents_def split: js.splits)

lemma dispatched_toggle: "concat (map dispatched (toggleEvents t on tys)) = []"
  by (rule concat_map_empty) (auto simp: toggleEvents_def split: js.splits)


lemma afterUpdate_total:
  assumes "xrInputSource s = Some src"
  shows "\<exists>s' effs. afterUpdate s = Inr (s', effs)"
  by (cases "xrSession s = lastXrSession s") (simp_all add: afterUpdate_def assms Let_def)

lemma afterUpdate_effects:
  assumes "xrInputSource s = Some src" and "afterUpdate s = Inr (s', effs)"
  shows "effs = (if xrSession s \<noteq> lastXrSession s then
                   toggleEvents (lastXrSession s) False XRSESSION_EVENTS @
                   (if \<not> isXrStandardGamepad src
                    then toggleEvents (xrSession s) True XRSESSION_EVENTS else [])
                 else [])"
  using assms(2)
  by (cases "xrSession s = lastXrSession s") (simp_all add: afterUpdate_def assms(1) Let_def)

lemma afterUpdate_fields:
  assumes "xrInputSource s = Some src" and "afterUpdate s = Inr (s', effs)"
  shows "xrInputSource s' = Some src \<and> rayIntersection s' = rayIntersection s \<and>
         targetRayPose s' = targetRayPose s \<and> gripPose s' = gripPose s \<and>
         facade_id s' = facade_id s"
  using assms(2)
  by (cases "xrSession s = lastXrSession s") (auto simp add: afterUpdate_def assms(1) Let_def)


lemma afterUpdate_added:
  assumes "xrInputSource s = Some src" and "afterUpdate s = Inr (s', effs)"
  shows "concat (map added effs) =
           (if xrSession s \<noteq> lastXrSession s \<and> \<not> isXrStandardGamepad src
            then (case xrSession s of Val x \<Rightarrow> map (Pair x) XRSESSION_EVENTS | _ \<Rightarrow> [])
            else [])"
  unfolding afterUpdate_effects[OF assms]
  by (simp add: added_toggle_off added_toggle_on del: concat_eq_Nil_conv)

lemma afterUpdate_dispatched:
  assumes "xrInputSource s = Some src" and "afterUpdate s = Inr (s', effs)"
  shows "concat (map dispatched effs) = []"
  unfolding afterUpdate_effects[OF assms]
  by (simp add: dispatched_toggle del: concat_eq_Nil_conv)

lemma track_fields:
  "xrInputSource (fst (trackGamepadState A s gp now)) = xrInputSource s \<and>
   rayIntersection (fst (trackGamepadState A s gp now)) = rayIntersection s \<and>
   targetRayPose (fst (trackGamepadState A s gp now)) = targetRayPose s \<and>
   gripPose (fst (trackGamepadState A s gp now)) = gripPose s \<and>
   facade_id (fst (trackGamepadState A s gp now)) = facade_id s"
  by (simp add: trackGamepadState_def split: prod.splits)

text \<open>What a frame returns when the facade has an input source.\<close>

lemma onXrFrame_result:
  assumes src: "xrInputSource s = Some src"
  shows "\<exists>s' effs. onXrFrame A s getPose refSpace now = Inr (s', effs) \<and>
           xrInputSource s' = Some src \<and>
           rayIntersection s' = rayIntersection s \<and>
           facade_id s' = facade_id s \<and>
           targetRayPose s' =
             (case refSpace of None \<Rightarrow> targetRayPose s
              | Some rs \<Rightarrow> getPose (targetRaySpace src) rs) \<and>
           gripPose s' =
             (case refSpace of None \<Rightarrow> gripPose s
              | Some rs \<Rightarrow> (case gripSpace src of Some g \<Rightarrow> getPose g rs | None \<Rightarrow> None)) \<and>
           (isXrStandardGamepad src \<longrightarrow> concat (map added effs) = [])"
proof -
  define p1 where "p1 =
    (case refSpace of
       None \<Rightarrow> (s, [])
     | Some rs \<Rightarrow>
         (let pose = getPose (targetRaySpace src) rs;
              (s', moved) =
                (case pose of
                   Some p \<Rightarrow>
                     if isPointing s
                     then (s\<lparr>facade_ray := Some p\<rparr>, [RayPointerMotion (Some p)])
                     else (s, [])
                 | None \<Rightarrow> (s, []))
          in (s'\<lparr>targetRayPose := pose,
                  gripPose := (case gripSpace src of
                                 Some g \<Rightarrow> getPose g rs
                               | None \<Rightarrow> None)\<rparr>,
              moved)))"
  define p2 where "p2 =
    (case gamepad src of
       Some g \<Rightarrow>
         if isXrStandardGamepad src
         then (case trackGamepadState A (fst p1) g now of
                 (s', acts) \<Rightarrow> (s', map RayPointerAction acts))
         else (fst p1, [])
     | None \<Rightarrow> (fst p1, []))"
  have f1: "xrInputSource (fst p1) = Some src \<and> rayIntersection (fst p1) = rayIntersection s \<and>
            facade_id (fst p1) = facade_id s \<and>
            targetRayPose (fst p1) =
              (case refSpace of None \<Rightarrow> targetRayPose s
               | Some rs \<Rightarrow> getPose (targetRaySpace src) rs) \<and>
            gripPose (fst p1) =
              (case refSpace of None \<Rightarrow> gripPose s
               | Some rs \<Rightarrow> (case gripSpace src of Some g \<Rightarrow> getPose g rs | None \<Rightarrow> None))"
    by (simp add: p1_def src Let_def split: option.splits)
  have e1: "concat (map added (snd p1)) = []"
    by (simp add: p1_def Let_def split: option.splits)
  have f2: "xrInputSource (fst p2) = xrInputSource (fst p1) \<and>
            rayIntersection (fst p2) = rayIntersection (fst p1) \<and>
            facade_id (fst p2) = facade_id (fst p1) \<and>
            targetRayPose (fst p2) = targetRayPose (fst p1) \<and>
            gripPose (fst p2) = gripPose (fst p1)"
    by (simp add: p2_def split_def track_fields split: option.splits)
  have e2: "concat (map added (snd p2)) = []"
    by (simp add: p2_def split_def added_actions split: option.splits)
  have src2: "xrInputSource (fst p2) = Some src"
    using f1 f2 by simp
  obtain s3 effs3 where au: "afterUpdate (fst p2) = Inr (s3, effs3)"
    using afterUpdate_total[OF src2] by blast
  have run: "onXrFrame A s getPose refSpace now = Inr (s3, snd p1 @ snd p2 @ effs3)"
    by (simp add: onXrFrame_def src Let_def split_def p1_def[symmetric] p2_def[symmetric] au)
  have e3: "isXrStandardGamepad src \<longrightarrow> concat (map added effs3) = []"
    using afterUpdate_added[OF src2 au] by simp
  show ?thesis
    using run f1 f2 e1 e2 e3 afterUpdate_fields[OF src2 au] by auto
qed


lemma frames_result:
  "xrInputSource s = Some src \<Longrightarrow>
   \<exists>s'. frames A s fs = Inr s' \<and> xrInputSource s' = Some src \<and>
        rayIntersection s' = rayIntersection s \<and>
        ((\<forall>f \<in> set fs. fst (snd f) = None) \<longrightarrow>
           targetRayPose s' = targetRayPose s \<and> gripPose s' = gripPose s)"
proof (induction fs arbitrary: s)
  case Nil
  then show ?case by simp
next
  case (Cons f fs)
  obtain getPose refSpace now where f: "f = (getPose, refSpace, now)" by (cases f)
  from onXrFrame_result[OF Cons.prems, where A=A and getPose=getPose and refSpace=refSpace and now=now]
  obtain s1 effs where fr: "onXrFrame A s getPose refSpace now = Inr (s1, effs)"
    and src1: "xrInputSource s1 = Some src"
    and ri: "rayIntersection s1 = rayIntersection s"
    and tp: "targetRayPose s1 =
               (case refSpace of None \<Rightarrow> targetRayPose s
                | Some rs \<Rightarrow> getPose (targetRaySpace src) rs)"
    and gp: "gripPose s1 =
               (case refSpace of None \<Rightarrow> gripPose s
                | Some rs \<Rightarrow> (case gripSpace src of Some g \<Rightarrow> getPose g rs | None \<Rightarrow> None))"
    by blast
  from Cons.IH[OF src1]
  obtain s' where rest: "frames A s1 fs = Inr s'" and src': "xrInputSource s' = Some src"
    and ri': "rayIntersection s' = rayIntersection s1"
    and po': "(\<forall>f \<in> set fs. fst (snd f) = None) \<longrightarrow>
           targetRayPose s' = targetRayPose s1 \<and> gripPose s' = gripPose s1"
    by blast
  have "frames A s (f # fs) = Inr s'"
    using fr rest f by simp
  moreover have "(\<forall>f \<in> set (f # fs). fst (snd f) = None) \<longrightarrow>
           targetRayPose s' = targetRayPose s \<and> gripPose s' = gripPose s"
    using po' tp gp f by auto
  ultimately show ?case using src' ri' ri by simp
qed

lemma xrTargetEvent_table:
  assumes "BUTTON_TRIGGER m \<noteq> BUTTON_SQUEEZE m"
  shows "(case b of
            None \<Rightarrow> None
          | Some b' \<Rightarrow> (case RAY_TARGET_EVENTS m b' of None \<Rightarrow> None | Some tab \<Rightarrow> tab ty)) =
         (if b = Some (BUTTON_TRIGGER m) \<and> ty = ''mousedown'' then Some ''xrselectstart''
          else if b = Some (BUTTON_TRIGGER m) \<and> ty = ''mouseup'' then Some ''xrselectend''
          else if b = Some (BUTTON_TRIGGER m) \<and> ty = ''click'' then Some ''xrselect''
          else if b = Some (BUTTON_SQUEEZE m) \<and> ty = ''mousedown'' then Some ''xrsqueezestart''
          else if b = Some (BUTTON_SQUEEZE m) \<and> ty = ''mouseup'' then Some ''xrsqueezeend''
          else if b = Some (BUTTON_SQUEEZE m) \<and> ty = ''click'' then Some ''xrsqueeze''
          else None)"
  using assms by (cases b) (auto simp: RAY_TARGET_EVENTS_def)

lemma onSceneRayEvent_result:
  assumes src: "xrInputSource s = Some src" and own: "eventSource e = facade_id s"
  shows "\<exists>s' effs. onSceneRayEvent m s e = Inr (s', effs) \<and>
           rayIntersection s' = intersection e \<and>
           xrInputSource s' = Some src \<and>
           (isXrStandardGamepad src \<longrightarrow> concat (map added effs) = []) \<and>
           concat (map dispatched effs) =
             (case (case ev_button e of
                      None \<Rightarrow> None
                    | Some b \<Rightarrow>
                        (case RAY_TARGET_EVENTS m b of
                           None \<Rightarrow> None
                         | Some tab \<Rightarrow> tab (ev_type e))) of
                None \<Rightarrow> []
              | Some name \<Rightarrow>
                  [(target e, \<lparr>ev_name = name, bubbles = True, ev_eventSource = facade_id s\<rparr>)])"
proof -
  let ?s0 = "s\<lparr>rayIntersection := intersection e\<rparr>"
  have src0: "xrInputSource ?s0 = Some src" using src by simp
  obtain s1 effs1 where au: "afterUpdate ?s0 = Inr (s1, effs1)"
    using afterUpdate_total[OF src0] by blast
  note fl = afterUpdate_fields[OF src0 au]
  have a1: "isXrStandardGamepad src \<longrightarrow> concat (map added effs1) = []"
    using afterUpdate_added[OF src0 au] by simp
  have d1: "concat (map dispatched effs1) = []"
    by (rule afterUpdate_dispatched[OF src0 au])
  show ?thesis
    using fl a1 d1
    by (simp add: onSceneRayEvent_def own au Let_def del: concat_eq_Nil_conv
             split: option.splits list.splits prod.splits)
qed


lemmas facade_eval = afterUpdate_def onXrFrame_def onSceneRayEvent_def onSessionEvent_def
  toggleEvents_def isXrStandardGamepad_def XRSESSION_EVENTS_def child_def device_def source_def
  constructor_def pad_def buttonIds_def RAY_TARGET_EVENTS_def HAPTICS_def Let_def
  button_action_def suffix_to_prefix

section \<open>Session events and the standard gamepad\<close>

text \<open>
  What one call does. The facade has an input source. When its gamepad is present and
  reports the mapping \<^verbatim>\<open>xr-standard\<close>, no method of the facade adds a listener to a
  session: not the update pass, not a frame, not a scene event. When the gamepad is
  absent or reports another mapping, the update pass that sees a new session adds the
  listener for the six session events to it, and the listener sends exactly one action
  for an event: for the six names in the order of \<^verbatim>\<open>XRSESSION_EVENTS\<close>, \<^verbatim>\<open>mousedown\<close>,
  \<^verbatim>\<open>click\<close> and \<^verbatim>\<open>mouseup\<close> with the trigger button, then the same three with the squeeze
  button.
\<close>

lemma no_listener_added_with_standard_gamepad:
  assumes "xrInputSource s = Some src"
  shows "((\<exists>g. gamepad src = Some g \<and> mapping g = ''xr-standard'') \<longrightarrow>
            (\<exists>s' effs. afterUpdate s = Inr (s', effs) \<and> concat (map added effs) = []) \<and>
            (\<exists>s' effs. onXrFrame A s getPose refSpace now = Inr (s', effs) \<and>
                        concat (map added effs) = []) \<and>
            (\<exists>s' effs. onSceneRayEvent m s e = Inr (s', effs) \<and>
                        concat (map added effs) = [])) \<and>
         (gamepad src = None \<or> (\<exists>g. gamepad src = Some g \<and> mapping g \<noteq> ''xr-standard'') \<longrightarrow>
            (\<forall>t. xrSession s = Val t \<and> lastXrSession s \<noteq> Val t \<longrightarrow>
               (\<exists>s' effs. afterUpdate s = Inr (s', effs) \<and>
                           concat (map added effs) = map (Pair t) XRSESSION_EVENTS)) \<and>
            map (onSessionEvent m s) XRSESSION_EVENTS =
              [[RayPointerAction (button_action (facade_ray s) ''mousedown'' (BUTTON_TRIGGER m))],
               [RayPointerAction (button_action (facade_ray s) ''click'' (BUTTON_TRIGGER m))],
               [RayPointerAction (button_action (facade_ray s) ''mouseup'' (BUTTON_TRIGGER m))],
               [RayPointerAction (button_action (facade_ray s) ''mousedown'' (BUTTON_SQUEEZE m))],
               [RayPointerAction (button_action (facade_ray s) ''click'' (BUTTON_SQUEEZE m))],
               [RayPointerAction (button_action (facade_ray s) ''mouseup'' (BUTTON_SQUEEZE m))]])"
proof -
  have std: "(\<exists>g. gamepad src = Some g \<and> mapping g = ''xr-standard'') = isXrStandardGamepad src"
    by (simp add: isXrStandardGamepad_def split: option.splits)
  have non: "(gamepad src = None \<or> (\<exists>g. gamepad src = Some g \<and> mapping g \<noteq> ''xr-standard''))
               = (\<not> isXrStandardGamepad src)"
    by (simp add: isXrStandardGamepad_def split: option.splits)
  obtain s1 effs1 where au: "afterUpdate s = Inr (s1, effs1)"
    using afterUpdate_total[OF assms] by blast
  note ad = afterUpdate_added[OF assms au]
  have p1: "isXrStandardGamepad src \<longrightarrow>
              (\<exists>s' effs. afterUpdate s = Inr (s', effs) \<and> concat (map added effs) = [])"
    using au ad by (simp del: concat_eq_Nil_conv)
  have p2: "isXrStandardGamepad src \<longrightarrow>
              (\<exists>s' effs. onXrFrame A s getPose refSpace now = Inr (s', effs) \<and>
                          concat (map added effs) = [])"
    using onXrFrame_result[OF assms, where A=A and getPose=getPose and refSpace=refSpace and now=now] by blast
  have p3: "isXrStandardGamepad src \<longrightarrow>
              (\<exists>s' effs. onSceneRayEvent m s e = Inr (s', effs) \<and> concat (map added effs) = [])"
  proof (cases "eventSource e = facade_id s")
    case True
    then show ?thesis using onSceneRayEvent_result[OF assms True, of m] by blast
  next
    case False
    then show ?thesis by (simp add: onSceneRayEvent_def)
  qed
  have p4: "\<not> isXrStandardGamepad src \<longrightarrow>
              (\<forall>t. xrSession s = Val t \<and> lastXrSession s \<noteq> Val t \<longrightarrow>
                 (\<exists>s' effs. afterUpdate s = Inr (s', effs) \<and>
                             concat (map added effs) = map (Pair t) XRSESSION_EVENTS))"
    using au ad by (auto simp del: concat_eq_Nil_conv)
  have p5: "map (onSessionEvent m s) XRSESSION_EVENTS =
              [[RayPointerAction (button_action (facade_ray s) ''mousedown'' (BUTTON_TRIGGER m))],
               [RayPointerAction (button_action (facade_ray s) ''click'' (BUTTON_TRIGGER m))],
               [RayPointerAction (button_action (facade_ray s) ''mouseup'' (BUTTON_TRIGGER m))],
               [RayPointerAction (button_action (facade_ray s) ''mousedown'' (BUTTON_SQUEEZE m))],
               [RayPointerAction (button_action (facade_ray s) ''click'' (BUTTON_SQUEEZE m))],
               [RayPointerAction (button_action (facade_ray s) ''mouseup'' (BUTTON_SQUEEZE m))]]"
    by (simp add: onSessionEvent_def XRSESSION_EVENTS_def button_action_def suffix_to_prefix)
  show ?thesis
    unfolding std non using p1 p2 p3 p4 p5 by blast
qed

text \<open>
  C3. The check of the gamepad is made only by an update pass that sees another session.
  The facade is given a session while its input source has no gamepad: the update pass
  adds the six listeners. Then its input source is one with a standard gamepad whose
  first button is pressed, under the same session: the next frame removes no listener,
  so the six are still registered although the gamepad is present and standard, and the
  frame sends a \<^verbatim>\<open>mousedown\<close> for button 0 from the poll. The session's \<^verbatim>\<open>selectstart\<close>
  for the same press reaches the listener, which sends a \<^verbatim>\<open>mousedown\<close> again.
\<close>

theorem listeners_stay_when_gamepad_becomes_standard:
  "\<exists>s1 effs1 s2 effs2.
     afterUpdate (device None) = Inr (s1, effs1) \<and>
     listening effs1 = map (Pair 5) XRSESSION_EVENTS \<and>
     onXrFrame exact_arith (s1\<lparr>xrInputSource := Some (source (Some (pad [True] [])))\<rparr>)
       (\<lambda>sp rs. None) None 1000 = Inr (s2, effs2) \<and>
     isXrStandardGamepad (source (Some (pad [True] []))) \<and>
     xrInputSource s2 = Some (source (Some (pad [True] []))) \<and>
     listening (effs1 @ effs2) = map (Pair 5) XRSESSION_EVENTS \<and>
     effs2 = [RayPointerAction (button_action None ''mousedown'' 0)] \<and>
     onSessionEvent buttonIds s2 ''selectstart'' =
       [RayPointerAction (button_action None ''mousedown'' 0)]"
  by (simp add: facade_eval poll_eval listening_def del: concat_eq_Nil_conv)

section \<open>Events dispatched to the target of the ray\<close>

text \<open>
  C5. The facade has an input source, and the two button constants differ. A scene event
  of one of the six types of \<open>SCENE_EVENTS\<close> whose source is this facade dispatches, to
  the event's target, exactly one event that bubbles and names this facade as its source
  when the event's button and type are in the table (trigger: \<^verbatim>\<open>mousedown\<close> to
  \<^verbatim>\<open>xrselectstart\<close>, \<^verbatim>\<open>mouseup\<close> to \<^verbatim>\<open>xrselectend\<close>, \<^verbatim>\<open>click\<close> to \<^verbatim>\<open>xrselect\<close>; squeeze:
  \<^verbatim>\<open>mousedown\<close> to \<^verbatim>\<open>xrsqueezestart\<close>, \<^verbatim>\<open>mouseup\<close> to \<^verbatim>\<open>xrsqueezeend\<close>, \<^verbatim>\<open>click\<close> to
  \<^verbatim>\<open>xrsqueeze\<close>), and dispatches nothing for any other button and type.
\<close>

theorem secondary_event_dispatch:
  assumes "xrInputSource s = Some src"
    and "eventSource e = facade_id s"
    and "BUTTON_TRIGGER m \<noteq> BUTTON_SQUEEZE m"
    and "ev_type e \<in> set SCENE_EVENTS"
  shows "\<exists>s' effs. onSceneRayEvent m s e = Inr (s', effs) \<and>
           concat (map dispatched effs) =
             (let b = ev_button e; ty = ev_type e;
                  ev = (\<lambda>name. [(target e, \<lparr>ev_name = name, bubbles = True,
                                             ev_eventSource = facade_id s\<rparr>)])
              in if b = Some (BUTTON_TRIGGER m) \<and> ty = ''mousedown'' then ev ''xrselectstart''
                 else if b = Some (BUTTON_TRIGGER m) \<and> ty = ''mouseup'' then ev ''xrselectend''
                 else if b = Some (BUTTON_TRIGGER m) \<and> ty = ''click'' then ev ''xrselect''
                 else if b = Some (BUTTON_SQUEEZE m) \<and> ty = ''mousedown'' then ev ''xrsqueezestart''
                 else if b = Some (BUTTON_SQUEEZE m) \<and> ty = ''mouseup'' then ev ''xrsqueezeend''
                 else if b = Some (BUTTON_SQUEEZE m) \<and> ty = ''click'' then ev ''xrsqueeze''
                 else [])"
proof -
  from onSceneRayEvent_result[OF assms(1,2), of m]
  obtain s' effs where run: "onSceneRayEvent m s e = Inr (s', effs)"
    and d: "concat (map dispatched effs) =
             (case (case ev_button e of
                      None \<Rightarrow> None
                    | Some b \<Rightarrow>
                        (case RAY_TARGET_EVENTS m b of
                           None \<Rightarrow> None
                         | Some tab \<Rightarrow> tab (ev_type e))) of
                None \<Rightarrow> []
              | Some name \<Rightarrow>
                  [(target e, \<lparr>ev_name = name, bubbles = True, ev_eventSource = facade_id s\<rparr>)])"
    by blast
  have "concat (map dispatched effs) =
             (let b = ev_button e; ty = ev_type e;
                  ev = (\<lambda>name. [(target e, \<lparr>ev_name = name, bubbles = True,
                                             ev_eventSource = facade_id s\<rparr>)])
              in if b = Some (BUTTON_TRIGGER m) \<and> ty = ''mousedown'' then ev ''xrselectstart''
                 else if b = Some (BUTTON_TRIGGER m) \<and> ty = ''mouseup'' then ev ''xrselectend''
                 else if b = Some (BUTTON_TRIGGER m) \<and> ty = ''click'' then ev ''xrselect''
                 else if b = Some (BUTTON_SQUEEZE m) \<and> ty = ''mousedown'' then ev ''xrsqueezestart''
                 else if b = Some (BUTTON_SQUEEZE m) \<and> ty = ''mouseup'' then ev ''xrsqueezeend''
                 else if b = Some (BUTTON_SQUEEZE m) \<and> ty = ''click'' then ev ''xrsqueeze''
                 else [])"
    unfolding d xrTargetEvent_table[OF assms(3)] by (simp add: Let_def)
  with run show ?thesis by blast
qed

theorem secondary_event_dispatch_witness:
  "(\<exists>s' effs. onSceneRayEvent buttonIds (device None)
                 \<lparr>ev_type = ''click'', target = 3, currentTarget = 9, eventSource = 7,
                   intersection = Some 11, ev_button = Some 1\<rparr> = Inr (s', effs) \<and>
               concat (map dispatched effs) =
                 [(3, \<lparr>ev_name = ''xrsqueeze'', bubbles = True, ev_eventSource = 7\<rparr>)]) \<and>
   (\<exists>s' effs. onSceneRayEvent buttonIds (device None)
                 \<lparr>ev_type = ''mouseover'', target = 3, currentTarget = 9, eventSource = 7,
                   intersection = Some 11, ev_button = None\<rparr> = Inr (s', effs) \<and>
               concat (map dispatched effs) = [])"
proof -
  have a: "xrInputSource (device None) = Some (source None)"
    by (simp add: device_def)
  have b: "\<And>ty bt. eventSource \<lparr>ev_type = ty, target = 3, currentTarget = 9, eventSource = 7,
                   intersection = Some (11::nat), ev_button = bt\<rparr> = facade_id (device None)"
    by (simp add: device_def constructor_def)
  have c: "BUTTON_TRIGGER buttonIds \<noteq> BUTTON_SQUEEZE buttonIds"
    by (simp add: buttonIds_def)
  have d: "\<And>bt. ev_type \<lparr>ev_type = ''click'', target = 3, currentTarget = 9, eventSource = 7,
                   intersection = Some (11::nat), ev_button = bt\<rparr> \<in> set SCENE_EVENTS"
    by (simp add: SCENE_EVENTS_def)
  have d': "\<And>bt. ev_type \<lparr>ev_type = ''mouseover'', target = 3, currentTarget = 9, eventSource = 7,
                   intersection = Some (11::nat), ev_button = bt\<rparr> \<in> set SCENE_EVENTS"
    by (simp add: SCENE_EVENTS_def)
  show ?thesis
    using secondary_event_dispatch[OF a b c d, of "Some 1"]
          secondary_event_dispatch[OF a b c d', of None]
    by (simp add: buttonIds_def device_def constructor_def Let_def)
qed

section \<open>Poses\<close>

text \<open>
  C7, as amended. The facade has an input source. A frame raises no error. With a
  reference space, a target-ray pose that the frame cannot resolve is stored as \<^verbatim>\<open>null\<close>,
  and so is the grip pose when the input source has no grip space or the frame cannot
  resolve it. Without a reference space the frame makes no query and leaves both stored
  poses as they are, and so does any run of such frames: they are \<^verbatim>\<open>null\<close> after the
  constructor, and the poses last resolved afterwards.
\<close>

theorem poses_absent_when_unresolved:
  assumes "xrInputSource s = Some src"
  shows "(\<exists>s' effs. onXrFrame A s getPose refSpace now = Inr (s', effs) \<and>
            (\<forall>rs. refSpace = Some rs \<and> getPose (targetRaySpace src) rs = None \<longrightarrow>
                  targetRayPose s' = None) \<and>
            (\<forall>rs. refSpace = Some rs \<and>
                  (gripSpace src = None \<or> (\<exists>g. gripSpace src = Some g \<and> getPose g rs = None)) \<longrightarrow>
                  gripPose s' = None) \<and>
            (refSpace = None \<longrightarrow>
               targetRayPose s' = targetRayPose s \<and> gripPose s' = gripPose s)) \<and>
         ((\<forall>f \<in> set fs. fst (snd f) = None) \<longrightarrow>
            (\<exists>s''. frames A s fs = Inr s'' \<and>
                   targetRayPose s'' = targetRayPose s \<and> gripPose s'' = gripPose s)) \<and>
         targetRayPose (constructor me :: ('p, 'x) facade) = None \<and>
         gripPose (constructor me :: ('p, 'x) facade) = None"
proof -
  from onXrFrame_result[OF assms, where A=A and getPose=getPose and refSpace=refSpace and now=now]
  obtain s' effs where run: "onXrFrame A s getPose refSpace now = Inr (s', effs)"
    and tp: "targetRayPose s' =
               (case refSpace of None \<Rightarrow> targetRayPose s
                | Some rs \<Rightarrow> getPose (targetRaySpace src) rs)"
    and gp: "gripPose s' =
               (case refSpace of None \<Rightarrow> gripPose s
                | Some rs \<Rightarrow> (case gripSpace src of Some g \<Rightarrow> getPose g rs | None \<Rightarrow> None))"
    by blast
  have one: "\<exists>s' effs. onXrFrame A s getPose refSpace now = Inr (s', effs) \<and>
            (\<forall>rs. refSpace = Some rs \<and> getPose (targetRaySpace src) rs = None \<longrightarrow>
                  targetRayPose s' = None) \<and>
            (\<forall>rs. refSpace = Some rs \<and>
                  (gripSpace src = None \<or> (\<exists>g. gripSpace src = Some g \<and> getPose g rs = None)) \<longrightarrow>
                  gripPose s' = None) \<and>
            (refSpace = None \<longrightarrow>
               targetRayPose s' = targetRayPose s \<and> gripPose s' = gripPose s)"
    using run tp gp by auto
  have many: "(\<forall>f \<in> set fs. fst (snd f) = None) \<longrightarrow>
            (\<exists>s''. frames A s fs = Inr s'' \<and>
                   targetRayPose s'' = targetRayPose s \<and> gripPose s'' = gripPose s)"
    using frames_result[OF assms, where A=A and fs=fs] by auto
  have init: "targetRayPose (constructor me :: ('p, 'x) facade) = None \<and>
         gripPose (constructor me :: ('p, 'x) facade) = None"
    by (simp add: constructor_def)
  show ?thesis using one many init by blast
qed

theorem poses_absent_when_unresolved_witness:
  "(\<exists>s' effs. onXrFrame exact_arith ((device None)\<lparr>targetRayPose := Some 8, gripPose := Some 9\<rparr>)
                 (\<lambda>sp rs. if sp = 2 then Some 6 else None) (Some 0) 1000 = Inr (s', effs) \<and>
               targetRayPose s' = None \<and> gripPose s' = Some 6) \<and>
   (\<exists>s''. frames exact_arith ((device None)\<lparr>targetRayPose := Some 8, gripPose := Some 9\<rparr>)
             [(\<lambda>sp rs. Some 6, None, 1000), (\<lambda>sp rs. Some 6, None, 1016)]
             = Inr s'' \<and> targetRayPose s'' = Some 8 \<and> gripPose s'' = Some 9)"
proof -
  let ?s = "(device None)\<lparr>targetRayPose := Some 8, gripPose := Some 9\<rparr>"
  have a: "xrInputSource ?s = Some (source None)"
    by (simp add: device_def)
  show ?thesis
    using poses_absent_when_unresolved[OF a, of exact_arith
            "\<lambda>sp rs. if sp = 2 then Some 6 else None" "Some 0" 1000 "[]" 7]
          poses_absent_when_unresolved[OF a, of exact_arith "\<lambda>sp rs. Some 6" None 1000
            "[(\<lambda>sp rs. Some 6, None, 1000), (\<lambda>sp rs. Some 6, None, 1016)]" 7]
    by (simp add: facade_eval)
qed

theorem stale_pose_without_reference_space_counterexample:
  "\<exists>s'. frames exact_arith (device None)
            [(\<lambda>sp rs. Some 6, Some 0, 1000), (\<lambda>sp rs. None, None, 1016)] = Inr s' \<and>
        targetRayPose s' = Some 6 \<and> gripPose s' = Some 6"
  by (simp add: facade_eval)

section \<open>The stored intersection\<close>

text \<open>
  C9. The facade has an input source. A frame, with or without a reference space and
  whatever poses it resolves, leaves \<open>rayIntersection\<close> as it is, and so does any run of
  frames, a poll of the gamepad and the update pass; the listener for session events
  returns no state at all. A scene event whose source is this facade sets
  \<open>rayIntersection\<close> to the event's intersection; a scene event from another source
  changes nothing and has no effect.
\<close>

theorem intersection_changes_only_on_own_scene_event:
  assumes "xrInputSource s = Some src"
  shows "(\<exists>s' effs. onXrFrame A s getPose refSpace now = Inr (s', effs) \<and>
                     rayIntersection s' = rayIntersection s) \<and>
         (\<exists>s'. frames A s fs = Inr s' \<and> rayIntersection s' = rayIntersection s) \<and>
         rayIntersection (fst (trackGamepadState A s gp now)) = rayIntersection s \<and>
         (\<exists>s' effs. afterUpdate s = Inr (s', effs) \<and> rayIntersection s' = rayIntersection s) \<and>
         (eventSource e = facade_id s \<longrightarrow>
            (\<exists>s' effs. onSceneRayEvent m s e = Inr (s', effs) \<and>
                        rayIntersection s' = intersection e)) \<and>
         (eventSource e \<noteq> facade_id s \<longrightarrow> onSceneRayEvent m s e = Inr (s, []))"
proof -
  have fr: "\<exists>s' effs. onXrFrame A s getPose refSpace now = Inr (s', effs) \<and>
                     rayIntersection s' = rayIntersection s"
    using onXrFrame_result[OF assms, where A=A and getPose=getPose and refSpace=refSpace and now=now] by blast
  have frs: "\<exists>s'. frames A s fs = Inr s' \<and> rayIntersection s' = rayIntersection s"
    using frames_result[OF assms, where A=A and fs=fs] by blast
  have tr: "rayIntersection (fst (trackGamepadState A s gp now)) = rayIntersection s"
    using track_fields[of A s gp now] by simp
  have au: "\<exists>s' effs. afterUpdate s = Inr (s', effs) \<and> rayIntersection s' = rayIntersection s"
    using afterUpdate_total[OF assms] afterUpdate_fields[OF assms] by blast
  have own: "eventSource e = facade_id s \<longrightarrow>
            (\<exists>s' effs. onSceneRayEvent m s e = Inr (s', effs) \<and>
                        rayIntersection s' = intersection e)"
    using onSceneRayEvent_result[OF assms, of e m] by blast
  have other: "eventSource e \<noteq> facade_id s \<longrightarrow> onSceneRayEvent m s e = Inr (s, [])"
    by (simp add: onSceneRayEvent_def)
  show ?thesis using fr frs tr au own other by blast
qed

theorem intersection_changes_only_on_own_scene_event_witness:
  "(\<exists>s' effs. onXrFrame exact_arith ((device (Some (pad [True] [])))\<lparr>rayIntersection := Some 11\<rparr>)
                 (\<lambda>sp rs. None) None 1000 = Inr (s', effs) \<and>
               rayIntersection s' = Some 11) \<and>
   (\<exists>s' effs. onSceneRayEvent buttonIds ((device (Some (pad [True] [])))\<lparr>rayIntersection := Some 11\<rparr>)
                 \<lparr>ev_type = ''mousemove'', target = 3, currentTarget = 9, eventSource = 7,
                   intersection = Some 12, ev_button = None\<rparr> = Inr (s', effs) \<and>
               rayIntersection s' = Some 12) \<and>
   onSceneRayEvent buttonIds ((device (Some (pad [True] [])))\<lparr>rayIntersection := Some 11\<rparr>)
     \<lparr>ev_type = ''mousemove'', target = 3, currentTarget = 9, eventSource = 8,
       intersection = Some 12, ev_button = None\<rparr> =
     Inr ((device (Some (pad [True] [])))\<lparr>rayIntersection := Some 11\<rparr>, [])"
proof -
  let ?s = "(device (Some (pad [True] [])))\<lparr>rayIntersection := Some 11\<rparr>"
  have a: "xrInputSource ?s = Some (source (Some (pad [True] [])))"
    by (simp add: device_def)
  have own: "eventSource \<lparr>ev_type = ''mousemove'', target = 3, currentTarget = 9, eventSource = 7,
                   intersection = Some (12::nat), ev_button = None\<rparr> = facade_id ?s"
    by (simp add: device_def constructor_def)
  have other: "eventSource \<lparr>ev_type = ''mousemove'', target = 3, currentTarget = 9, eventSource = 8,
                   intersection = Some (12::nat), ev_button = None\<rparr> \<noteq> facade_id ?s"
    by (simp add: device_def constructor_def)
  show ?thesis
    using intersection_changes_only_on_own_scene_event[OF a,
            of exact_arith "\<lambda>sp rs. None" None 1000 "[]" "pad [True] []"
               "\<lparr>ev_type = ''mousemove'', target = 3, currentTarget = 9, eventSource = 7,
                 intersection = Some 12, ev_button = None\<rparr>" buttonIds]
          intersection_changes_only_on_own_scene_event[OF a,
            of exact_arith "\<lambda>sp rs. None" None 1000 "[]" "pad [True] []"
               "\<lparr>ev_type = ''mousemove'', target = 3, currentTarget = 9, eventSource = 8,
                 intersection = Some 12, ev_button = None\<rparr>" buttonIds]
          own other
    by simp
qed

end
